theory Spec2Isabelle
  imports Main "HOL-Library.AList"
begin

section \<open>Python values, exceptions and dictionaries\<close>

text \<open>
  The service is written in Python. Values that cross the HTTP boundary are decoded JSON:
  \<open>None\<close>, booleans, numbers, strings, lists and dictionaries. A dictionary is kept as an
  association list with one entry per key, in insertion order. Only integral numbers are
  represented; the code below never computes with a number, it only tests its truth value
  and compares values with string literals.
  A \<open>string\<close> stands for a Python \<open>str\<close>, one \<open>char\<close> per code point.
\<close>

datatype json =
    JNull
  | JBool bool
  | JNum int
  | JStr string
  | JArr "json list"
  | JObj "(string \<times> json) list"

type_synonym pydict = "(string \<times> json) list"

type_synonym bytes = "nat list"

text \<open>
  Every exception the modelled code can meet derives from Python's \<open>Exception\<close>, so a
  handler \<open>except Exception\<close> catches each of them. The argument is \<open>str(e)\<close>.
  \<open>LibraryError\<close> stands for whatever the HTTP client, the JSON decoder or the storage
  client raise on their own.
\<close>

datatype exn =
    Exception string
  | AttributeError string
  | TypeError string
  | KeyError string
  | LibraryError string

fun str_exn :: "exn \<Rightarrow> string" where
  "str_exn (Exception m) = m"
| "str_exn (AttributeError m) = m"
| "str_exn (TypeError m) = m"
| "str_exn (KeyError m) = m"
| "str_exn (LibraryError m) = m"

text \<open>Sequencing of statements that may raise: the first exception ends the block.\<close>

definition and_then :: "exn + 'a \<Rightarrow> ('a \<Rightarrow> exn + 'b) \<Rightarrow> exn + 'b" where
  "and_then m f = (case m of Inl e \<Rightarrow> Inl e | Inr x \<Rightarrow> f x)"

text \<open>Python's truth value of an object, as tested by \<open>if x:\<close> and \<open>x or y\<close>.\<close>

fun truthy :: "json \<Rightarrow> bool" where
  "truthy JNull = False"
| "truthy (JBool b) = b"
| "truthy (JNum n) = (n \<noteq> 0)"
| "truthy (JStr s) = (s \<noteq> [])"
| "truthy (JArr xs) = (xs \<noteq> [])"
| "truthy (JObj kvs) = (kvs \<noteq> [])"

fun type_name :: "json \<Rightarrow> string" where
  "type_name JNull = ''NoneType''"
| "type_name (JBool b) = ''bool''"
| "type_name (JNum n) = ''int''"
| "type_name (JStr s) = ''str''"
| "type_name (JArr xs) = ''list''"
| "type_name (JObj kvs) = ''dict''"

text \<open>\<open>d.get(k, default)\<close> on a dictionary, and \<open>d[k]\<close>, which raises on a missing key.\<close>

definition dict_get :: "pydict \<Rightarrow> string \<Rightarrow> json \<Rightarrow> json" where
  "dict_get d k dflt = (case map_of d k of None \<Rightarrow> dflt | Some v \<Rightarrow> v)"

definition dict_index :: "pydict \<Rightarrow> string \<Rightarrow> exn + json" where
  "dict_index d k = (case map_of d k of None \<Rightarrow> Inl (KeyError k) | Some v \<Rightarrow> Inr v)"

text \<open>
  \<open>v.get(k, default)\<close> on a decoded JSON value: only a dictionary has the method, any
  other value raises \<open>AttributeError\<close>.
\<close>

fun py_get :: "json \<Rightarrow> string \<Rightarrow> json \<Rightarrow> exn + json" where
  "py_get (JObj d) k dflt = Inr (dict_get d k dflt)"
| "py_get v k dflt =
     Inl (AttributeError ([CHR 0x27] @ type_name v @ [CHR 0x27] @ '' object has no attribute '' @
                          [CHR 0x27] @ ''get'' @ [CHR 0x27]))"

text \<open>\<open>str(n)\<close> for a non-negative integer: its decimal digits.\<close>

definition digit_char :: "nat \<Rightarrow> char" where
  "digit_char d = ''0123456789'' ! d"

fun str_nat :: "nat \<Rightarrow> string" where
  "str_nat n = (if n < 10 then [digit_char n]
                else str_nat (n div 10) @ [digit_char (n mod 10)])"

declare str_nat.simps [simp del]

text \<open>
  \<open>s.strip()\<close>: leading and trailing whitespace removed. The code points below 256 for
  which \<open>str.isspace\<close> holds are 9 to 13, 28 to 32, 133 and 160.
\<close>

definition py_isspace :: "char \<Rightarrow> bool" where
  "py_isspace c = (let n = (of_char c :: nat) in
                    (9 \<le> n \<and> n \<le> 13) \<or> (28 \<le> n \<and> n \<le> 32) \<or> n = 133 \<or> n = 160)"

definition py_strip :: "string \<Rightarrow> string" where
  "py_strip s = rev (dropWhile py_isspace (rev (dropWhile py_isspace s)))"

section \<open>HTTP responses\<close>

text \<open>
  What the HTTP client hands back: the status code, the body as text and as bytes, and what
  \<open>response.json()\<close> yields: \<open>json_body\<close> is the decoded value, or \<open>None\<close> when the
  body is not JSON; then the decoder raises and \<open>json_error\<close> is the text of its exception.
\<close>

record response =
  status_code :: nat
  body_text :: string
  content :: bytes
  json_body :: "json option"
  json_error :: string

definition response_json :: "response \<Rightarrow> exn + json" where
  "response_json r = (case json_body r of
      None \<Rightarrow> Inl (LibraryError (json_error r))
    | Some v \<Rightarrow> Inr v)"

section \<open>config.py\<close>

definition DEFAULT_VOICE :: string where
  "DEFAULT_VOICE = ''af_heart''"

text \<open>The speed is the number \<open>1.0\<close>.\<close>

definition DEFAULT_SPEED :: int where
  "DEFAULT_SPEED = 1"

definition MAX_TEXT_LENGTH :: nat where
  "MAX_TEXT_LENGTH = 25000"

section \<open>tts.py: the speech backend client\<close>

text \<open>
  \<open>re.sub(pattern, repl, text)\<close> for a pattern that matches exactly one literal
  character: each occurrence of the character is replaced by \<open>repl\<close>, everything else is
  copied.
\<close>

fun re_sub_char :: "char \<Rightarrow> string \<Rightarrow> string \<Rightarrow> string" where
  "re_sub_char c repl [] = []"
| "re_sub_char c repl (x # xs) = (if x = c then repl @ re_sub_char c repl xs
                                  else x # re_sub_char c repl xs)"

definition clean_text_for_tts :: "string \<Rightarrow> string" where
  "clean_text_for_tts t = (let cleaned = re_sub_char (CHR ''*'') [] t in cleaned)"

text \<open>
  \<open>submit_tts_job\<close>. The parameter \<open>post\<close> is the backend's \<open>/run\<close> endpoint: given
  the JSON payload it either fails in transport or answers with a response.
  \<open>run_payload\<close> is the dictionary sent, with \<open>voice or DEFAULT_VOICE\<close>.
\<close>

definition run_payload :: "string \<Rightarrow> string option \<Rightarrow> json" where
  "run_payload cleaned_text voice =
     JObj [(''input'', JObj
        [(''text'', JStr cleaned_text),
         (''voice'', JStr (case voice of None \<Rightarrow> DEFAULT_VOICE
                           | Some v \<Rightarrow> if v \<noteq> [] then v else DEFAULT_VOICE)),
         (''speed'', JNum DEFAULT_SPEED)])]"

definition submit_tts_job :: "(json \<Rightarrow> exn + response) \<Rightarrow> string \<Rightarrow> string option \<Rightarrow> exn + json" where
  "submit_tts_job post t voice =
    (let cleaned_text = clean_text_for_tts t;
         payload = run_payload cleaned_text voice
     in and_then (post payload) (\<lambda>resp.
          if status_code resp \<noteq> 200
          then Inl (Exception (''RunPod API failed: '' @ str_nat (status_code resp) @ '' - '' @ body_text resp))
          else and_then (response_json resp) (\<lambda>data. py_get data ''id'' JNull)))"

text \<open>
  \<open>check_tts_status\<close>. The parameter \<open>post\<close> is the backend's \<open>/status/{run_id}\<close>
  endpoint. The status code of the response is not inspected.
\<close>

definition check_tts_status :: "(json \<Rightarrow> exn + response) \<Rightarrow> json \<Rightarrow> exn + pydict" where
  "check_tts_status post run_id =
     and_then (post run_id) (\<lambda>resp.
     and_then (response_json resp) (\<lambda>data.
     and_then (py_get data ''status'' (JStr ''UNKNOWN'')) (\<lambda>st.
       let result = [(''status'', st)] in
       if st = JStr ''COMPLETED'' then
         and_then (py_get data ''output'' (JObj [])) (\<lambda>out.
         and_then (py_get out ''download_url'' JNull) (\<lambda>url.
           Inr (AList.update ''download_url'' url result)))
       else if st \<in> set [JStr ''FAILED'', JStr ''ERROR''] then
         and_then (py_get data ''error'' (JStr ''Unknown error'')) (\<lambda>err.
           Inr (AList.update ''error'' err result))
       else Inr result)))"

text \<open>
  \<open>download_audio\<close>. The parameter \<open>get\<close> is the HTTP client's \<open>get\<close>, called with
  whatever value the caller passes as URL; what it does with a value that is not a string
  is the client's affair.
\<close>

definition download_audio :: "(json \<Rightarrow> exn + response) \<Rightarrow> json \<Rightarrow> exn + bytes" where
  "download_audio get download_url =
     and_then (get download_url) (\<lambda>resp.
       if status_code resp \<noteq> 200
       then Inl (Exception (''Failed to download audio: '' @ str_nat (status_code resp)))
       else Inr (content resp))"

section \<open>database.py: the record store\<close>

text \<open>
  A row of the generations table. Columns that an insert does not supply are \<open>NULL\<close>
  (\<open>None\<close>, \<open>JNull\<close>). The columns \<open>file_url\<close> and \<open>error\<close> hold whatever Python
  value the caller passes.
\<close>

record generation =
  gid :: string
  title :: "string option"
  description :: "string option"
  text_content :: string
  status :: string
  created_at :: string
  storage_path :: "string option"
  file_url :: json
  error :: json
  completed_at :: "string option"

text \<open>
  The store is the table, keyed by the primary key \<open>id\<close>, together with a journal of the
  writes issued against it, oldest first. The table has no other writer and its calls do
  not raise. An update of an id that has no row changes nothing and returns no data.
\<close>

datatype db_write =
    Insert generation
  | SetCompleted string string json string
  | SetFailed string json string

record store =
  table :: "string \<rightharpoonup> generation"
  journal :: "db_write list"

text \<open>
  What one attempt of the polling loop meets outside the program: the two HTTP calls
  (status and download), \<open>upload\<close> and \<open>create_signed_url\<close> of the storage bucket
  (the latter with the path and the expiry in seconds), and the clock
  (\<open>datetime.now(timezone.utc).isoformat()\<close>).
\<close>

record world =
  status_post :: "json \<Rightarrow> exn + response"
  download_get :: "json \<Rightarrow> exn + response"
  storage_upload :: "string \<Rightarrow> bytes \<Rightarrow> exn + unit"
  create_signed_url :: "string \<Rightarrow> nat \<Rightarrow> exn + json"
  clock :: string

definition db_update :: "string \<Rightarrow> (generation \<Rightarrow> generation) \<Rightarrow> store \<Rightarrow> generation list \<times> store" where
  "db_update gen_id f db = (case table db gen_id of
       None \<Rightarrow> ([], db)
     | Some r \<Rightarrow> ([f r], db\<lparr>table := (table db)(gen_id \<mapsto> f r)\<rparr>))"

definition first_row :: "generation list \<Rightarrow> generation option" where
  "first_row data = (case data of [] \<Rightarrow> None | r # _ \<Rightarrow> Some r)"

definition create_generation ::
  "string \<Rightarrow> string \<Rightarrow> string \<Rightarrow> string option \<Rightarrow> string option \<Rightarrow> store \<Rightarrow> generation option \<times> store" where
  "create_generation uuid now t ttl descr db =
     (let record = \<lparr>gid = uuid, title = ttl, description = descr, text_content = t,
                     status = ''processing'', created_at = now, storage_path = None,
                     file_url = JNull, error = JNull, completed_at = None\<rparr>;
          data = [record];
          db' = db\<lparr>table := (table db)(uuid \<mapsto> record), journal := journal db @ [Insert record]\<rparr>
      in (first_row data, db'))"

definition update_generation_completed ::
  "string \<Rightarrow> string \<Rightarrow> string \<Rightarrow> json \<Rightarrow> store \<Rightarrow> generation option \<times> store" where
  "update_generation_completed now gen_id path url db =
     (let (data, db') = db_update gen_id
            (\<lambda>r. r\<lparr>status := ''completed'', storage_path := Some path, file_url := url,
                   completed_at := Some now\<rparr>) db
      in (first_row data, db'\<lparr>journal := journal db' @ [SetCompleted gen_id path url now]\<rparr>))"

definition update_generation_failed ::
  "string \<Rightarrow> string \<Rightarrow> json \<Rightarrow> store \<Rightarrow> generation option \<times> store" where
  "update_generation_failed now gen_id err db =
     (let (data, db') = db_update gen_id
            (\<lambda>r. r\<lparr>status := ''failed'', error := err, completed_at := Some now\<rparr>) db
      in (first_row data, db'\<lparr>journal := journal db' @ [SetFailed gen_id err now]\<rparr>))"

definition upload_audio_to_storage :: "world \<Rightarrow> bytes \<Rightarrow> string \<Rightarrow> exn + (string \<times> json)" where
  "upload_audio_to_storage w audio_bytes gen_id =
     (let path = gen_id @ ''.mp3'' in
      and_then (storage_upload w path audio_bytes) (\<lambda>_.
      and_then (create_signed_url w path 1209600) (\<lambda>signed_url_response.
      and_then (py_get signed_url_response ''signedURL'' (JStr [])) (\<lambda>url.
        Inr (path, url)))))"

text \<open>
  \<open>refresh_signed_url\<close>: the body of the \<open>try\<close>, and the function with its handler
  \<open>except Exception: return ""\<close>.
\<close>

definition refresh_signed_url_try :: "(string \<Rightarrow> nat \<Rightarrow> exn + json) \<Rightarrow> string \<Rightarrow> exn + json" where
  "refresh_signed_url_try sign path =
     and_then (sign path 3600) (\<lambda>resp. py_get resp ''signedURL'' (JStr []))"

definition refresh_signed_url :: "(string \<Rightarrow> nat \<Rightarrow> exn + json) \<Rightarrow> string \<Rightarrow> exn + json" where
  "refresh_signed_url sign path =
     (case refresh_signed_url_try sign path of
        Inl e \<Rightarrow> Inr (JStr [])
      | Inr url \<Rightarrow> Inr url)"

section \<open>main.py: the lifecycle controller and the generate endpoint\<close>

text \<open>
  One pass through the body of the polling loop either reaches a \<open>return\<close>, with the store
  as the pass left it, or falls through to the next iteration. No write to the store
  precedes a statement that can raise, so a raised exception leaves the store as it was.
\<close>

datatype flow = Return store | Continue

definition max_attempts :: nat where
  "max_attempts = 60"

definition poll_try :: "world \<Rightarrow> string \<Rightarrow> json \<Rightarrow> store \<Rightarrow> exn + flow" where
  "poll_try w gen_id runpod_job_id db =
     and_then (check_tts_status (status_post w) runpod_job_id) (\<lambda>result.
     and_then (dict_index result ''status'') (\<lambda>st.
       if st = JStr ''COMPLETED'' then
         (let download_url = dict_get result ''download_url'' JNull in
          if truthy download_url then
            and_then (download_audio (download_get w) download_url) (\<lambda>audio_bytes.
            and_then (upload_audio_to_storage w audio_bytes gen_id) (\<lambda>(path, url).
              Inr (Return (snd (update_generation_completed (clock w) gen_id path url db)))))
          else Inr (Return (snd (update_generation_failed (clock w) gen_id
                                   (JStr ''No download URL received'') db))))
       else if st \<in> set [JStr ''FAILED'', JStr ''ERROR''] then
         (let err = dict_get result ''error'' (JStr ''Unknown error'') in
          Inr (Return (snd (update_generation_failed (clock w) gen_id err db))))
       else Inr Continue))"

text \<open>The \<open>try\<close> with its handler: an exception is logged and the loop goes on.\<close>

definition poll_once :: "world \<Rightarrow> string \<Rightarrow> json \<Rightarrow> store \<Rightarrow> flow" where
  "poll_once w gen_id runpod_job_id db =
     (case poll_try w gen_id runpod_job_id db of Inl e \<Rightarrow> Continue | Inr fl \<Rightarrow> fl)"

text \<open>
  \<open>for attempt in range(max_attempts)\<close>, then the timeout write. \<open>env i\<close> is the world
  as attempt \<open>i\<close> meets it (counting from 0); \<open>poll_loop env g r i k\<close> runs the \<open>k\<close>
  attempts from \<open>i\<close> on. The sleep before each attempt has no effect on the store.
\<close>

fun poll_loop :: "(nat \<Rightarrow> world) \<Rightarrow> string \<Rightarrow> json \<Rightarrow> nat \<Rightarrow> nat \<Rightarrow> store \<Rightarrow> store" where
  "poll_loop env gen_id runpod_job_id i 0 db =
     snd (update_generation_failed (clock (env i)) gen_id (JStr ''Generation timed out'') db)"
| "poll_loop env gen_id runpod_job_id i (Suc k) db =
     (case poll_once (env i) gen_id runpod_job_id db of
        Return db' \<Rightarrow> db'
      | Continue \<Rightarrow> poll_loop env gen_id runpod_job_id (Suc i) k db)"

definition process_tts_job :: "(nat \<Rightarrow> world) \<Rightarrow> string \<Rightarrow> json \<Rightarrow> store \<Rightarrow> store" where
  "process_tts_job env gen_id runpod_job_id db = poll_loop env gen_id runpod_job_id 0 max_attempts db"

text \<open>
  \<open>api_generate\<close>, the body of the handler of \<open>POST /api/generate\<close>. The framework has
  resolved the bearer-token dependency before the body runs. The handler's surroundings:
  the summarizer \<open>generate_title_and_description\<close> (which handles its own exceptions),
  the fresh id (\<open>uuid.uuid4()\<close>) and the clock used by \<open>create_generation\<close>, the
  clock as \<open>update_generation_failed\<close> reads it later, and the backend's \<open>/run\<close>
  endpoint. The result is the HTTP outcome, the background task added (the generation id
  and the backend job id, the same pair that \<open>active_jobs\<close> records), and the store.
\<close>

record GenerateRequest =
  request_text :: string
  request_title :: "string option"

record handler_env =
  summarize :: "string \<Rightarrow> string \<times> string"
  new_uuid :: string
  now :: string
  now_after_submit :: string
  run_post :: "json \<Rightarrow> exn + response"

datatype http_result =
    HTTPException nat string
  | GenerateResponse string string

definition api_generate ::
  "handler_env \<Rightarrow> GenerateRequest \<Rightarrow> store \<Rightarrow> http_result \<times> (string \<times> json) option \<times> store" where
  "api_generate h request db =
     (let t = py_strip (request_text request) in
      if t = [] then (HTTPException 400 ''Text is required'', None, db)
      else if length t > MAX_TEXT_LENGTH
      then (HTTPException 400 (''Text too long (max '' @ str_nat MAX_TEXT_LENGTH @ '' chars)''), None, db)
      else
        (let ttl = request_title request;
             (ttl', descr) = (if ttl = None \<or> ttl = Some []
                              then (Some (fst (summarize h t)), Some (snd (summarize h t)))
                              else (ttl, Some (snd (summarize h t))));
             (gen, db1) = create_generation (new_uuid h) (now h) t ttl' descr db
         in case gen of
              None \<Rightarrow> (HTTPException 500 ''Failed to create generation record'', None, db1)
            | Some g \<Rightarrow>
               (let gen_id = gid g in
                case submit_tts_job (run_post h) t None of
                  Inr runpod_job_id \<Rightarrow>
                    (GenerateResponse gen_id ''processing'', Some (gen_id, runpod_job_id), db1)
                | Inl e \<Rightarrow>
                    (HTTPException 500 (''Failed to submit TTS job: '' @ str_exn e), None,
                     snd (update_generation_failed (now_after_submit h) gen_id (JStr (str_exn e)) db1)))))"

section \<open>Vocabulary of the properties\<close>

text \<open>
  A terminal write for generation \<open>g\<close> is an update of \<open>g\<close> to \<open>completed\<close> or to
  \<open>failed\<close>; \<open>status_of\<close> reads the status of \<open>g\<close> from the store, as the status
  endpoint does.
\<close>

fun terminal_write :: "string \<Rightarrow> db_write \<Rightarrow> bool" where
  "terminal_write g (Insert r) = False"
| "terminal_write g (SetCompleted g' p u t) = (g' = g)"
| "terminal_write g (SetFailed g' e t) = (g' = g)"

fun write_status :: "db_write \<Rightarrow> string" where
  "write_status (Insert r) = status r"
| "write_status (SetCompleted g p u t) = ''completed''"
| "write_status (SetFailed g e t) = ''failed''"

definition status_of :: "store \<Rightarrow> string \<Rightarrow> string option" where
  "status_of db g = map_option status (table db g)"

section \<open>Example surroundings\<close>

text \<open>
  Concrete backends, stores and requests on which the properties below are exercised:
  a response with status 200 and a JSON body; a world whose status endpoint gives a fixed
  answer, whose downloads and uploads succeed and whose signing call returns a fixed
  response; a run that meets one answer for the first \<open>k\<close> attempts and another from then
  on; a run whose backend reports \<open>RUNNING\<close> once and \<open>COMPLETED\<close> with a download
  URL from then on, with the download, the upload and the signing call as given; and a
  store holding one freshly created row.
\<close>

definition json_reply :: "json \<Rightarrow> exn + response" where
  "json_reply v = Inr \<lparr>status_code = 200, body_text = [], content = [], json_body = Some v,
                       json_error = []\<rparr>"

definition example_world :: "(exn + response) \<Rightarrow> json \<Rightarrow> world" where
  "example_world status_reply sign_reply =
     \<lparr>status_post = (\<lambda>_. status_reply),
      download_get = (\<lambda>_. Inr \<lparr>status_code = 200, body_text = [], content = [73, 68, 51],
                                  json_body = None,
        json_error = ''Expecting value: line 1 column 1 (char 0)''\<rparr>),
      storage_upload = (\<lambda>_ _. Inr ()),
      create_signed_url = (\<lambda>_ _. Inr sign_reply),
      clock = ''2026-01-01T00:00:05+00:00''\<rparr>"

definition example_row :: generation where
  "example_row = \<lparr>gid = ''g1'', title = Some ''Greeting'', description = Some ''A greeting'',
      text_content = ''hello'', status = ''processing'', created_at = ''2026-01-01T00:00:00+00:00'',
      storage_path = None, file_url = JNull, error = JNull, completed_at = None\<rparr>"

definition example_store :: store where
  "example_store = \<lparr>table = [''g1'' \<mapsto> example_row], journal = [Insert example_row]\<rparr>"

definition scripted :: "nat \<Rightarrow> (exn + response) \<Rightarrow> (exn + response) \<Rightarrow> json \<Rightarrow> nat \<Rightarrow> world" where
  "scripted k first second sign_reply i =
     (if i < k then example_world first sign_reply else example_world second sign_reply)"

definition running_then_completed :: "json \<Rightarrow> nat \<Rightarrow> world" where
  "running_then_completed sign_reply =
     scripted 1 (json_reply (JObj [(''status'', JStr ''RUNNING'')]))
       (json_reply (JObj [(''status'', JStr ''COMPLETED''),
              (''output'', JObj [(''download_url'', JStr ''https://backend/audio.mp3'')])])) sign_reply"

definition always_running :: "nat \<Rightarrow> world" where
  "always_running = scripted 0 (json_reply (JObj [(''status'', JStr ''IN_PROGRESS'')]))
       (json_reply (JObj [(''status'', JStr ''IN_PROGRESS'')])) (JObj [])"


definition outage_then_failed :: "nat \<Rightarrow> world" where
  "outage_then_failed = scripted 5 (Inl (LibraryError ''All connection attempts failed''))
       (json_reply (JObj [(''status'', JStr ''FAILED''), (''error'', JStr ''CUDA out of memory'')])) (JObj [])"







definition example_handler_env :: handler_env where
  "example_handler_env =
     \<lparr>summarize = (\<lambda>t. (take 60 t, take 150 t)),
      new_uuid = ''g2'',
      now = ''2026-01-01T00:00:00+00:00'',
      now_after_submit = ''2026-01-01T00:00:01+00:00'',
      run_post = (\<lambda>_. json_reply (JObj [(''id'', JStr ''job-2'')]))\<rparr>"

section \<open>Facts about the store and the polling loop\<close>

lemmas example_defs = json_reply_def example_world_def example_row_def example_store_def scripted_def

lemmas check_defs = check_tts_status_def and_then_def response_json_def dict_get_def

lemma example_store_row: "table example_store ''g1'' = Some example_row"
  by (simp add: example_store_def)

lemma example_store_journal: "journal example_store = [Insert example_row]"
  by (simp add: example_store_def)

lemma scripted_clock: "clock (scripted k a b s i) = ''2026-01-01T00:00:05+00:00''"
  by (simp add: scripted_def example_world_def)

lemma max_attempts_60: "max_attempts = 60"
  by (simp add: max_attempts_def)

lemma failed_journal:
  "journal (snd (update_generation_failed t g e db)) = journal db @ [SetFailed g e t]"
  by (simp add: update_generation_failed_def db_update_def split: option.splits)

lemma completed_journal:
  "journal (snd (update_generation_completed t g p u db)) = journal db @ [SetCompleted g p u t]"
  by (simp add: update_generation_completed_def db_update_def split: option.splits)

lemma failed_table:
  "table (snd (update_generation_failed t g e db)) =
     (case table db g of None \<Rightarrow> table db
      | Some r \<Rightarrow> (table db)(g \<mapsto> r\<lparr>status := ''failed'', error := e, completed_at := Some t\<rparr>))"
  by (simp add: update_generation_failed_def db_update_def split: option.splits)

lemma completed_table:
  "table (snd (update_generation_completed t g p u db)) =
     (case table db g of None \<Rightarrow> table db
      | Some r \<Rightarrow> (table db)(g \<mapsto> r\<lparr>status := ''completed'', storage_path := Some p,
                                     file_url := u, completed_at := Some t\<rparr>))"
  by (simp add: update_generation_completed_def db_update_def split: option.splits)

lemma failed_row:
  assumes "table db g = Some rec"
  shows "table (snd (update_generation_failed t g e db)) g =
           Some (rec\<lparr>status := ''failed'', error := e, completed_at := Some t\<rparr>)"
  using assms by (simp add: failed_table)


lemma upload_path:
  "upload_audio_to_storage w b g = Inr (p, u) \<Longrightarrow> p = g @ ''.mp3''"
  by (auto simp: upload_audio_to_storage_def and_then_def Let_def split: sum.splits)

lemma poll_once_nonterminal:
  assumes "check_tts_status (status_post w) r = Inr result"
    and "map_of result ''status'' = Some st"
    and "st \<noteq> JStr ''COMPLETED''" and "st \<noteq> JStr ''FAILED''" and "st \<noteq> JStr ''ERROR''"
  shows "poll_once w g r db = Continue"
  using assms by (simp add: poll_once_def poll_try_def and_then_def dict_index_def)

lemma poll_once_raises:
  assumes "check_tts_status (status_post w) r = Inl e"
  shows "poll_once w g r db = Continue"
  using assms by (simp add: poll_once_def poll_try_def and_then_def)


lemma poll_once_failed:
  assumes "check_tts_status (status_post w) r = Inr result"
    and "map_of result ''status'' = Some st" and "st = JStr ''FAILED'' \<or> st = JStr ''ERROR''"
  shows "poll_once w g r db =
     Return (snd (update_generation_failed (clock w) g (dict_get result ''error'' (JStr ''Unknown error'')) db))"
  using assms by (auto simp add: poll_once_def poll_try_def and_then_def dict_index_def)


lemma poll_once_cases:
  "poll_once w g r db = Continue
   \<or> (\<exists>u. poll_once w g r db = Return (snd (update_generation_completed (clock w) g (g @ ''.mp3'') u db)))
   \<or> (\<exists>e. poll_once w g r db = Return (snd (update_generation_failed (clock w) g e db)))"
proof (cases "poll_try w g r db")
  case (Inl e)
  then show ?thesis by (simp add: poll_once_def)
next
  case (Inr fl)
  then have eq: "poll_once w g r db = fl" by (simp add: poll_once_def)
  from Inr have "fl = Continue
     \<or> (\<exists>u. fl = Return (snd (update_generation_completed (clock w) g (g @ ''.mp3'') u db)))
     \<or> (\<exists>e. fl = Return (snd (update_generation_failed (clock w) g e db)))"
    unfolding poll_try_def and_then_def Let_def
    by (auto split: sum.splits if_splits dest: upload_path)
  with eq show ?thesis by simp
qed

lemma poll_loop_cases:
  "(\<exists>t u. poll_loop env g r i k db = snd (update_generation_completed t g (g @ ''.mp3'') u db))
   \<or> (\<exists>t e. poll_loop env g r i k db = snd (update_generation_failed t g e db))"
proof (induction k arbitrary: i)
  case 0
  show ?case by auto
next
  case (Suc k)
  from poll_once_cases [of "env i" g r db] show ?case
  proof (elim disjE exE)
    assume "poll_once (env i) g r db = Continue"
    then have "poll_loop env g r i (Suc k) db = poll_loop env g r (Suc i) k db" by simp
    with Suc.IH [of "Suc i"] show ?thesis by simp
  next
    fix u assume "poll_once (env i) g r db = Return (snd (update_generation_completed (clock (env i)) g (g @ ''.mp3'') u db))"
    then have "poll_loop env g r i (Suc k) db = snd (update_generation_completed (clock (env i)) g (g @ ''.mp3'') u db)" by simp
    then show ?thesis by blast
  next
    fix e assume "poll_once (env i) g r db = Return (snd (update_generation_failed (clock (env i)) g e db))"
    then have "poll_loop env g r i (Suc k) db = snd (update_generation_failed (clock (env i)) g e db)" by simp
    then show ?thesis by blast
  qed
qed

lemma process_cases:
  "(\<exists>t u. process_tts_job env g r db = snd (update_generation_completed t g (g @ ''.mp3'') u db))
   \<or> (\<exists>t e. process_tts_job env g r db = snd (update_generation_failed t g e db))"
  unfolding process_tts_job_def by (rule poll_loop_cases)

lemma poll_loop_continue:
  "(\<And>j. i \<le> j \<Longrightarrow> j < i + k \<Longrightarrow> poll_once (env j) g r db = Continue) \<Longrightarrow>
   poll_loop env g r i k db =
     snd (update_generation_failed (clock (env (i + k))) g (JStr ''Generation timed out'') db)"
proof (induction k arbitrary: i)
  case 0
  show ?case by simp
next
  case (Suc k)
  have here: "poll_once (env i) g r db = Continue"
    using Suc.prems [of i] by simp
  have rest: "poll_loop env g r (Suc i) k db =
     snd (update_generation_failed (clock (env (Suc i + k))) g (JStr ''Generation timed out'') db)"
    by (rule Suc.IH) (use Suc.prems in simp)
  show ?case using here rest by simp
qed

lemma poll_loop_return:
  "m < k \<Longrightarrow> (\<And>j. i \<le> j \<Longrightarrow> j < i + m \<Longrightarrow> poll_once (env j) g r db = Continue) \<Longrightarrow>
   poll_once (env (i + m)) g r db = Return db' \<Longrightarrow>
   poll_loop env g r i k db = db'"
proof (induction m arbitrary: i k)
  case 0
  then obtain k' where "k = Suc k'" by (cases k) auto
  with 0 show ?case by simp
next
  case (Suc m)
  then obtain k' where k: "k = Suc k'" and mk: "m < k'" by (cases k) auto
  have here: "poll_once (env i) g r db = Continue"
    using Suc.prems(2) [of i] by simp
  have rest: "poll_loop env g r (Suc i) k' db = db'"
  proof (rule Suc.IH [OF mk])
    fix j assume "Suc i \<le> j" "j < Suc i + m"
    then show "poll_once (env j) g r db = Continue" using Suc.prems(2) [of j] by simp
  next
    show "poll_once (env (Suc i + m)) g r db = Return db'" using Suc.prems(3) by simp
  qed
  show ?case using here rest k by simp
qed

lemma check_failed_reply:
  assumes "post r = Inr resp" and "json_body resp = Some (JObj data)"
    and "map_of data ''status'' = Some st" and "st = JStr ''FAILED'' \<or> st = JStr ''ERROR''"
  shows "check_tts_status post r =
           Inr [(''status'', st), (''error'', dict_get data ''error'' (JStr ''Unknown error''))]"
  using assms
  by (auto simp add: check_tts_status_def and_then_def response_json_def dict_get_def)

lemma create_generation_row:
  "create_generation uuid nw t ttl descr db =
     (Some \<lparr>gid = uuid, title = ttl, description = descr, text_content = t,
            status = ''processing'', created_at = nw, storage_path = None,
            file_url = JNull, error = JNull, completed_at = None\<rparr>,
      db\<lparr>table := (table db)(uuid \<mapsto> \<lparr>gid = uuid, title = ttl, description = descr, text_content = t,
            status = ''processing'', created_at = nw, storage_path = None,
            file_url = JNull, error = JNull, completed_at = None\<rparr>),
         journal := journal db @ [Insert \<lparr>gid = uuid, title = ttl, description = descr, text_content = t,
            status = ''processing'', created_at = nw, storage_path = None,
            file_url = JNull, error = JNull, completed_at = None\<rparr>]\<rparr>)"
  by (simp add: create_generation_def first_row_def Let_def)

lemma strip_blank: "py_strip ''  '' = []"
  by (simp add: py_strip_def py_isspace_def)

lemma strip_hello: "py_strip '' hello  '' = ''hello''"
  by (simp add: py_strip_def py_isspace_def)










lemma re_sub_char_filter: "re_sub_char c [] t = filter (\<lambda>x. x \<noteq> c) t"
  by (induction t) simp_all

section \<open>The speech backend client\<close>

text \<open>
  Claim C10. For every input string, \<open>clean_text_for_tts\<close> returns the input with every
  asterisk removed and every other character kept, in order. Hence cleaning twice is the
  same as cleaning once, and a string without an asterisk is returned unchanged.
\<close>

theorem clean_text_for_tts_removes_asterisks:
  "clean_text_for_tts t = filter (\<lambda>c. c \<noteq> CHR ''*'') t
   \<and> clean_text_for_tts (clean_text_for_tts t) = clean_text_for_tts t
   \<and> (CHR ''*'' \<notin> set t \<longrightarrow> clean_text_for_tts t = t)"
  by (auto simp add: clean_text_for_tts_def re_sub_char_filter filter_id_conv)

theorem clean_text_for_tts_removes_asterisks_witness:
  "clean_text_for_tts ''read *this* aloud'' = ''read this aloud''
   \<and> CHR ''*'' \<notin> set ''plain'' \<and> clean_text_for_tts ''plain'' = ''plain''"
  using clean_text_for_tts_removes_asterisks [of "''read *this* aloud''"]
        clean_text_for_tts_removes_asterisks [of "''plain''"]
  by simp

text \<open>
  \<open>check_tts_status\<close> does not map the backend's status into a closed vocabulary: a
  backend answer with status \<open>IN_QUEUE\<close> comes back with status \<open>IN_QUEUE\<close>.
\<close>

theorem check_tts_status_raw_status:
  "check_tts_status (\<lambda>_. json_reply (JObj [(''status'', JStr ''IN_QUEUE'')])) (JStr ''job-1'')
     = Inr [(''status'', JStr ''IN_QUEUE'')]
   \<and> JStr ''IN_QUEUE'' \<notin> set [JStr ''QUEUED'', JStr ''RUNNING'', JStr ''COMPLETED'',
                                JStr ''FAILED'', JStr ''ERROR'', JStr ''UNKNOWN'']"
  by (simp add: check_defs json_reply_def)

text \<open>
  Claim C2, as the code has it. For a backend answer whose body is a JSON object, let
  \<open>st\<close> be the body's \<open>status\<close> entry, or \<open>UNKNOWN\<close> when the body has none. Every
  result of \<open>check_tts_status\<close> carries \<open>st\<close> as its status: the backend's value is
  passed through unchanged, whatever it is. The result is the status alone when \<open>st\<close> is
  none of \<open>COMPLETED\<close>, \<open>FAILED\<close>, \<open>ERROR\<close>; the status with the \<open>error\<close> entry
  (\<open>Unknown error\<close> when absent) for \<open>FAILED\<close> and \<open>ERROR\<close>; and for \<open>COMPLETED\<close>
  the status with the \<open>download_url\<close> entry of \<open>output\<close> (\<open>None\<close> when \<open>output\<close> or
  the entry is absent), provided \<open>output\<close> is absent or an object.
\<close>

theorem check_tts_status_passes_status_through:
  assumes "post r = Inr resp" and "json_body resp = Some (JObj data)"
    and "st = dict_get data ''status'' (JStr ''UNKNOWN'')"
  shows "(\<forall>result. check_tts_status post r = Inr result \<longrightarrow>
            (\<forall>v. map_of data ''status'' = Some v \<longrightarrow> map_of result ''status'' = Some v)
          \<and> (map_of data ''status'' = None \<longrightarrow> map_of result ''status'' = Some (JStr ''UNKNOWN'')))
       \<and> (st \<noteq> JStr ''COMPLETED'' \<and> st \<noteq> JStr ''FAILED'' \<and> st \<noteq> JStr ''ERROR'' \<longrightarrow>
            check_tts_status post r = Inr [(''status'', st)])
       \<and> (st = JStr ''FAILED'' \<or> st = JStr ''ERROR'' \<longrightarrow>
            check_tts_status post r =
              Inr [(''status'', st), (''error'', dict_get data ''error'' (JStr ''Unknown error''))])
       \<and> (st = JStr ''COMPLETED'' \<and> map_of data ''output'' = None \<longrightarrow>
            check_tts_status post r = Inr [(''status'', st), (''download_url'', JNull)])
       \<and> (\<forall>out. st = JStr ''COMPLETED'' \<and> map_of data ''output'' = Some (JObj out) \<longrightarrow>
            check_tts_status post r =
              Inr [(''status'', st), (''download_url'', dict_get out ''download_url'' JNull)])"
proof (intro conjI allI impI)
  fix result v
  assume "check_tts_status post r = Inr result" and "map_of data ''status'' = Some v"
  with assms show "map_of result ''status'' = Some v"
    by (auto simp add: check_tts_status_def and_then_def response_json_def dict_get_def Let_def
          split: sum.splits if_splits)
next
  fix result
  assume "check_tts_status post r = Inr result" and "map_of data ''status'' = None"
  with assms show "map_of result ''status'' = Some (JStr ''UNKNOWN'')"
    by (auto simp add: check_tts_status_def and_then_def response_json_def dict_get_def Let_def
          split: sum.splits if_splits)
next
  assume "st \<noteq> JStr ''COMPLETED'' \<and> st \<noteq> JStr ''FAILED'' \<and> st \<noteq> JStr ''ERROR''"
  with assms show "check_tts_status post r = Inr [(''status'', st)]"
    by (simp add: check_tts_status_def and_then_def response_json_def)
next
  assume "st = JStr ''FAILED'' \<or> st = JStr ''ERROR''"
  with assms show "check_tts_status post r =
              Inr [(''status'', st), (''error'', dict_get data ''error'' (JStr ''Unknown error''))]"
    by (auto simp add: check_tts_status_def and_then_def response_json_def)
next
  assume "st = JStr ''COMPLETED'' \<and> map_of data ''output'' = None"
  with assms show "check_tts_status post r = Inr [(''status'', st), (''download_url'', JNull)]"
    by (simp add: check_tts_status_def and_then_def response_json_def dict_get_def)
next
  fix out
  assume "st = JStr ''COMPLETED'' \<and> map_of data ''output'' = Some (JObj out)"
  with assms show "check_tts_status post r =
              Inr [(''status'', st), (''download_url'', dict_get out ''download_url'' JNull)]"
    by (simp add: check_tts_status_def and_then_def response_json_def dict_get_def)
qed

theorem check_tts_status_passes_status_through_witness:
  "check_tts_status (\<lambda>_. json_reply (JObj [(''status'', JStr ''IN_QUEUE'')])) (JStr ''job-1'')
     = Inr [(''status'', JStr ''IN_QUEUE'')]
   \<and> check_tts_status (\<lambda>_. json_reply (JObj [(''status'', JStr ''COMPLETED''),
          (''output'', JObj [(''download_url'', JStr ''https://backend/audio.mp3'')])])) (JStr ''job-1'')
     = Inr [(''status'', JStr ''COMPLETED''), (''download_url'', JStr ''https://backend/audio.mp3'')]
   \<and> check_tts_status (\<lambda>_. json_reply (JObj [(''delayTime'', JNum 12)])) (JStr ''job-1'')
     = Inr [(''status'', JStr ''UNKNOWN'')]"
proof -
  let ?r = "JStr ''job-1''"
  let ?d1 = "[(''status'', JStr ''IN_QUEUE'')]"
  let ?out = "[(''download_url'', JStr ''https://backend/audio.mp3'')]"
  let ?d2 = "[(''status'', JStr ''COMPLETED''), (''output'', JObj ?out)]"
  let ?d3 = "[(''delayTime'', JNum 12)]"
  let ?resp = "\<lambda>d. \<lparr>status_code = 200, body_text = [], content = [], json_body = Some (JObj d),
                      json_error = []\<rparr>"
  from check_tts_status_passes_status_through [of "\<lambda>_. json_reply (JObj ?d1)" ?r "?resp ?d1" ?d1 "JStr ''IN_QUEUE''"]
  have a: "check_tts_status (\<lambda>_. json_reply (JObj ?d1)) ?r = Inr [(''status'', JStr ''IN_QUEUE'')]"
    by (simp add: json_reply_def dict_get_def)
  from check_tts_status_passes_status_through [of "\<lambda>_. json_reply (JObj ?d2)" ?r "?resp ?d2" ?d2 "JStr ''COMPLETED''"]
  have b: "check_tts_status (\<lambda>_. json_reply (JObj ?d2)) ?r =
      Inr [(''status'', JStr ''COMPLETED''), (''download_url'', dict_get ?out ''download_url'' JNull)]"
    by (simp add: json_reply_def dict_get_def)
  from check_tts_status_passes_status_through [of "\<lambda>_. json_reply (JObj ?d3)" ?r "?resp ?d3" ?d3 "JStr ''UNKNOWN''"]
  have c: "check_tts_status (\<lambda>_. json_reply (JObj ?d3)) ?r = Inr [(''status'', JStr ''UNKNOWN'')]"
    by (simp add: json_reply_def dict_get_def)
  from a b c show ?thesis by (simp add: dict_get_def)
qed

text \<open>
  The message of the exception raised by \<open>submit_tts_job\<close> carries the whole response
  body: for a status 500 with a body of 5000 characters the message holds all of them
  after its prefix.
\<close>

theorem submit_tts_job_body_not_truncated:
  "submit_tts_job (\<lambda>_. Inr \<lparr>status_code = 500, body_text = replicate 5000 (CHR ''x''),
                            content = [], json_body = None,
        json_error = ''Expecting value: line 1 column 1 (char 0)''\<rparr>) ''hello'' None
     = Inl (Exception (''RunPod API failed: 500 - '' @ replicate 5000 (CHR ''x'')))
   \<and> length (''RunPod API failed: 500 - '' @ replicate 5000 (CHR ''x'')) = 5025"
  by (simp add: submit_tts_job_def and_then_def str_nat.simps digit_char_def)

text \<open>
  Claim C7, as the code has it. For every backend response whose status code is not 200,
  \<open>submit_tts_job\<close> raises an exception whose message is \<open>RunPod API failed: \<close>,
  the status code in decimal, \<open> - \<close> and the entire response body. For a response
  with status 200 whose body is a JSON object it returns the \<open>id\<close> entry (\<open>None\<close>
  when there is none).
\<close>

theorem submit_tts_job_error_message:
  assumes "post (run_payload (clean_text_for_tts t) voice) = Inr resp"
  shows "(status_code resp \<noteq> 200 \<longrightarrow>
            submit_tts_job post t voice =
              Inl (Exception (''RunPod API failed: '' @ str_nat (status_code resp) @ '' - '' @ body_text resp)))
       \<and> (status_code resp = 200 \<and> json_body resp = Some (JObj data) \<longrightarrow>
            submit_tts_job post t voice = Inr (dict_get data ''id'' JNull))"
  using assms by (simp add: submit_tts_job_def and_then_def response_json_def)

theorem submit_tts_job_error_message_witness:
  "submit_tts_job (\<lambda>_. Inr \<lparr>status_code = 503, body_text = ''Service Unavailable'',
                            content = [], json_body = None,
        json_error = ''Expecting value: line 1 column 1 (char 0)''\<rparr>) ''hello'' None
     = Inl (Exception ''RunPod API failed: 503 - Service Unavailable'')
   \<and> submit_tts_job (\<lambda>_. json_reply (JObj [(''id'', JStr ''job-1''), (''status'', JStr ''IN_QUEUE'')])) ''hello'' None
     = Inr (JStr ''job-1'')"
  using submit_tts_job_error_message [of "\<lambda>_. Inr \<lparr>status_code = 503, body_text = ''Service Unavailable'',
                            content = [], json_body = None,
        json_error = ''Expecting value: line 1 column 1 (char 0)''\<rparr>" "''hello''" None
            "\<lparr>status_code = 503, body_text = ''Service Unavailable'', content = [], json_body = None,
        json_error = ''Expecting value: line 1 column 1 (char 0)''\<rparr>"]
        submit_tts_job_error_message [of "\<lambda>_. json_reply (JObj [(''id'', JStr ''job-1''), (''status'', JStr ''IN_QUEUE'')])" "''hello''" None
            "\<lparr>status_code = 200, body_text = [], content = [], json_body = Some (JObj [(''id'', JStr ''job-1''), (''status'', JStr ''IN_QUEUE'')]), json_error = []\<rparr>"
            "[(''id'', JStr ''job-1''), (''status'', JStr ''IN_QUEUE'')]"]
  by (simp add: json_reply_def str_nat.simps digit_char_def dict_get_def)

section \<open>The record store\<close>

text \<open>
  Claim C9. \<open>refresh_signed_url\<close> never raises. It asks the bucket for a URL signed for
  3600 seconds (one hour); when that call raises, or anything else in the \<open>try\<close> raises,
  it returns the empty string; when the call answers with a dictionary that has a
  \<open>signedURL\<close> entry, it returns that entry.
\<close>

theorem refresh_signed_url_never_raises:
  "(\<exists>v. refresh_signed_url sign path = Inr v)
   \<and> (\<forall>e. sign path 3600 = Inl e \<longrightarrow> refresh_signed_url sign path = Inr (JStr []))
   \<and> (\<forall>e. refresh_signed_url_try sign path = Inl e \<longrightarrow> refresh_signed_url sign path = Inr (JStr []))
   \<and> (\<forall>d u. sign path 3600 = Inr (JObj d) \<and> map_of d ''signedURL'' = Some u \<longrightarrow>
         refresh_signed_url sign path = Inr u)"
  by (auto simp add: refresh_signed_url_def refresh_signed_url_try_def and_then_def dict_get_def
        split: sum.splits)

theorem refresh_signed_url_never_raises_witness:
  "refresh_signed_url (\<lambda>p n. Inl (LibraryError ''Object not found'')) ''g1.mp3'' = Inr (JStr [])
   \<and> refresh_signed_url (\<lambda>p n. if n = 3600 then Inr (JObj [(''signedURL'', JStr (''https://storage/'' @ p @ ''?token=abc''))])
                                else Inl (LibraryError ''unexpected expiry'')) ''g1.mp3''
       = Inr (JStr ''https://storage/g1.mp3?token=abc'')"
  using refresh_signed_url_never_raises [of "\<lambda>p n. Inl (LibraryError ''Object not found'')" "''g1.mp3''"]
        refresh_signed_url_never_raises [of "\<lambda>p n. if n = 3600 then Inr (JObj [(''signedURL'', JStr (''https://storage/'' @ p @ ''?token=abc''))])
                                else Inl (LibraryError ''unexpected expiry'')" "''g1.mp3''"]
  by simp

section \<open>The lifecycle controller\<close>

text \<open>
  Claim C3. When each of the 60 polls returns a status other than \<open>COMPLETED\<close>,
  \<open>FAILED\<close> and \<open>ERROR\<close>, the run issues exactly one write, the update to
  \<open>failed\<close> with error \<open>Generation timed out\<close>, and the record of the generation,
  if it exists, ends with that status and error.
\<close>

theorem process_tts_job_times_out:
  assumes "\<forall>i<60. \<exists>result st. check_tts_status (status_post (env i)) r = Inr result
              \<and> map_of result ''status'' = Some st
              \<and> st \<noteq> JStr ''COMPLETED'' \<and> st \<noteq> JStr ''FAILED'' \<and> st \<noteq> JStr ''ERROR''"
  shows "journal (process_tts_job env g r db) =
           journal db @ [SetFailed g (JStr ''Generation timed out'') (clock (env 60))]
       \<and> (\<forall>rec. table db g = Some rec \<longrightarrow>
            table (process_tts_job env g r db) g =
              Some (rec\<lparr>status := ''failed'', error := JStr ''Generation timed out'',
                         completed_at := Some (clock (env 60))\<rparr>))"
proof -
  have "poll_once (env j) g r db = Continue" if "j < 0 + max_attempts" for j
    using assms that poll_once_nonterminal [of "env j" r _ _ g db]
    by (auto simp add: max_attempts_60)
  then have "process_tts_job env g r db =
      snd (update_generation_failed (clock (env (0 + max_attempts))) g (JStr ''Generation timed out'') db)"
    unfolding process_tts_job_def by (intro poll_loop_continue) simp
  then show ?thesis
    by (simp add: max_attempts_60 failed_journal failed_row)
qed

theorem process_tts_job_times_out_witness:
  "journal (process_tts_job always_running ''g1'' (JStr ''job-1'') example_store) =
     [Insert example_row, SetFailed ''g1'' (JStr ''Generation timed out'') ''2026-01-01T00:00:05+00:00'']
   \<and> status_of (process_tts_job always_running ''g1'' (JStr ''job-1'') example_store) ''g1'' = Some ''failed''"
proof -
  have h: "\<forall>i<60. \<exists>result st. check_tts_status (status_post (always_running i)) (JStr ''job-1'') = Inr result
              \<and> map_of result ''status'' = Some st
              \<and> st \<noteq> JStr ''COMPLETED'' \<and> st \<noteq> JStr ''FAILED'' \<and> st \<noteq> JStr ''ERROR''"
    by (simp add: always_running_def example_defs check_defs)
  have clk: "\<And>i. clock (always_running i) = ''2026-01-01T00:00:05+00:00''"
    by (simp add: always_running_def scripted_clock)
  from process_tts_job_times_out [OF h, of "''g1''" example_store] show ?thesis
    by (simp add: status_of_def example_store_row example_store_journal clk)
qed




text \<open>
  Claim C6. When \<open>check_tts_status\<close> raises during an attempt, the loop goes on with
  the next attempt and the store is as it was. In particular, when the polls of attempts
  before \<open>n < 60\<close> all raise and the backend then answers \<open>FAILED\<close>, the run
  issues exactly one write, the update to \<open>failed\<close> whose error is the backend's
  \<open>error\<close> entry, or \<open>Unknown error\<close> when the answer has none.
\<close>

theorem process_tts_job_poll_exception_transient:
  "(check_tts_status (status_post (env i)) r = Inl e \<longrightarrow>
      poll_loop env g r i (Suc k) db = poll_loop env g r (Suc i) k db)
   \<and> (n < 60
      \<and> (\<forall>j<n. \<exists>e. check_tts_status (status_post (env j)) r = Inl e)
      \<and> status_post (env n) r = Inr resp \<and> json_body resp = Some (JObj data)
      \<and> map_of data ''status'' = Some (JStr ''FAILED'') \<longrightarrow>
        journal (process_tts_job env g r db) =
          journal db @ [SetFailed g (dict_get data ''error'' (JStr ''Unknown error'')) (clock (env n))]
      \<and> (\<forall>rec. table db g = Some rec \<longrightarrow>
            table (process_tts_job env g r db) g =
              Some (rec\<lparr>status := ''failed'',
                         error := dict_get data ''error'' (JStr ''Unknown error''),
                         completed_at := Some (clock (env n))\<rparr>)))"
proof (intro conjI impI)
  assume "check_tts_status (status_post (env i)) r = Inl e"
  then show "poll_loop env g r i (Suc k) db = poll_loop env g r (Suc i) k db"
    by (simp add: poll_once_raises)
next
  assume a: "n < 60
      \<and> (\<forall>j<n. \<exists>e. check_tts_status (status_post (env j)) r = Inl e)
      \<and> status_post (env n) r = Inr resp \<and> json_body resp = Some (JObj data)
      \<and> map_of data ''status'' = Some (JStr ''FAILED'')"
  let ?err = "dict_get data ''error'' (JStr ''Unknown error'')"
  have chk: "check_tts_status (status_post (env n)) r =
           Inr [(''status'', JStr ''FAILED''), (''error'', ?err)]"
    using a check_failed_reply [of "status_post (env n)" r resp data "JStr ''FAILED''"] by simp
  have run: "process_tts_job env g r db = snd (update_generation_failed (clock (env n)) g ?err db)"
    unfolding process_tts_job_def
  proof (rule poll_loop_return [where m = n])
    show "n < max_attempts" using a by (simp add: max_attempts_60)
    show "poll_once (env j) g r db = Continue" if "j < 0 + n" for j
      using a that poll_once_raises [of "env j" r _ g db] by auto
    show "poll_once (env (0 + n)) g r db = Return (snd (update_generation_failed (clock (env n)) g ?err db))"
      using poll_once_failed [OF chk, of "JStr ''FAILED''" g db] by (simp add: dict_get_def)
  qed
  show "journal (process_tts_job env g r db) = journal db @ [SetFailed g ?err (clock (env n))]"
    by (simp add: run failed_journal)
  show "\<forall>rec. table db g = Some rec \<longrightarrow>
            table (process_tts_job env g r db) g =
              Some (rec\<lparr>status := ''failed'', error := ?err, completed_at := Some (clock (env n))\<rparr>)"
    by (simp add: run failed_row)
qed

theorem process_tts_job_poll_exception_transient_witness:
  "journal (process_tts_job outage_then_failed ''g1'' (JStr ''job-1'') example_store) =
     [Insert example_row, SetFailed ''g1'' (JStr ''CUDA out of memory'') ''2026-01-01T00:00:05+00:00'']
   \<and> status_of (process_tts_job outage_then_failed ''g1'' (JStr ''job-1'') example_store) ''g1'' = Some ''failed''"
proof -
  let ?r = "JStr ''job-1''"
  let ?data = "[(''status'', JStr ''FAILED''), (''error'', JStr ''CUDA out of memory'')]"
  let ?resp = "\<lparr>status_code = 200, body_text = [], content = [], json_body = Some (JObj ?data), json_error = []\<rparr>"
  have h: "5 < (60::nat)
      \<and> (\<forall>j<5. \<exists>e. check_tts_status (status_post (outage_then_failed j)) ?r = Inl e)
      \<and> status_post (outage_then_failed 5) ?r = Inr ?resp \<and> json_body ?resp = Some (JObj ?data)
      \<and> map_of ?data ''status'' = Some (JStr ''FAILED'')"
    by (simp add: outage_then_failed_def example_defs check_defs)
  have clk: "\<And>i. clock (outage_then_failed i) = ''2026-01-01T00:00:05+00:00''"
    by (simp add: outage_then_failed_def scripted_clock)
  have err: "dict_get ?data ''error'' (JStr ''Unknown error'') = JStr ''CUDA out of memory''"
    by (simp add: dict_get_def)
  from process_tts_job_poll_exception_transient [of outage_then_failed 0 ?r "LibraryError ''x''" "''g1''" 0 example_store 5 ?resp ?data] h
  have "journal (process_tts_job outage_then_failed ''g1'' ?r example_store) =
          journal example_store @ [SetFailed ''g1'' (dict_get ?data ''error'' (JStr ''Unknown error'')) (clock (outage_then_failed 5))]
      \<and> (\<forall>rec. table example_store ''g1'' = Some rec \<longrightarrow>
            table (process_tts_job outage_then_failed ''g1'' ?r example_store) ''g1'' =
              Some (rec\<lparr>status := ''failed'',
                         error := dict_get ?data ''error'' (JStr ''Unknown error''),
                         completed_at := Some (clock (outage_then_failed 5))\<rparr>))"
    by blast
  then show ?thesis
    by (simp add: status_of_def example_store_row example_store_journal clk err)
qed

text \<open>
  Claim C5. Every run of \<open>process_tts_job\<close> appends exactly one write to the journal of
  the store, and that write is an update of its own generation to \<open>completed\<close> or to
  \<open>failed\<close>; rows of other generations are untouched. So a record that was
  \<open>processing\<close> when the run started is seen as \<open>processing\<close> and then as exactly
  one of \<open>completed\<close> and \<open>failed\<close>, and is not written again by the run.
\<close>

theorem process_tts_job_one_terminal_write:
  "(\<exists>wr. journal (process_tts_job env g r db) = journal db @ [wr] \<and> terminal_write g wr
         \<and> (status_of db g = Some ''processing'' \<longrightarrow>
              status_of (process_tts_job env g r db) g = Some (write_status wr)
              \<and> (write_status wr = ''completed'' \<or> write_status wr = ''failed'')))
   \<and> (\<forall>g'. g' \<noteq> g \<longrightarrow> table (process_tts_job env g r db) g' = table db g')"
proof -
  from process_cases [of env g r db] show ?thesis
  proof (elim disjE exE)
    fix t u assume run: "process_tts_job env g r db = snd (update_generation_completed t g (g @ ''.mp3'') u db)"
    have "journal (process_tts_job env g r db) = journal db @ [SetCompleted g (g @ ''.mp3'') u t]"
      by (simp add: run completed_journal)
    moreover have "status_of db g = Some ''processing'' \<longrightarrow>
        status_of (process_tts_job env g r db) g = Some ''completed''"
      by (auto simp add: run status_of_def completed_table)
    moreover have "\<forall>g'. g' \<noteq> g \<longrightarrow> table (process_tts_job env g r db) g' = table db g'"
      by (simp add: run completed_table split: option.splits)
    ultimately show ?thesis
      by (intro conjI exI [of _ "SetCompleted g (g @ ''.mp3'') u t"]) simp_all
  next
    fix t e assume run: "process_tts_job env g r db = snd (update_generation_failed t g e db)"
    have "journal (process_tts_job env g r db) = journal db @ [SetFailed g e t]"
      by (simp add: run failed_journal)
    moreover have "status_of db g = Some ''processing'' \<longrightarrow>
        status_of (process_tts_job env g r db) g = Some ''failed''"
      by (auto simp add: run status_of_def failed_table)
    moreover have "\<forall>g'. g' \<noteq> g \<longrightarrow> table (process_tts_job env g r db) g' = table db g'"
      by (simp add: run failed_table split: option.splits)
    ultimately show ?thesis
      by (intro conjI exI [of _ "SetFailed g e t"]) simp_all
  qed
qed

theorem process_tts_job_one_terminal_write_witness:
  "length (journal (process_tts_job (running_then_completed (JObj [])) ''g1'' (JStr ''job-1'') example_store)) = 2
   \<and> status_of example_store ''g1'' = Some ''processing''
   \<and> (status_of (process_tts_job (running_then_completed (JObj [])) ''g1'' (JStr ''job-1'') example_store) ''g1'' = Some ''completed''
      \<or> status_of (process_tts_job (running_then_completed (JObj [])) ''g1'' (JStr ''job-1'') example_store) ''g1'' = Some ''failed'')"
proof -
  have st: "status_of example_store ''g1'' = Some ''processing''"
    by (simp add: status_of_def example_defs)
  from process_tts_job_one_terminal_write [of "running_then_completed (JObj [])" "''g1''" "JStr ''job-1''" example_store] st
  obtain wr where "journal (process_tts_job (running_then_completed (JObj [])) ''g1'' (JStr ''job-1'') example_store)
        = journal example_store @ [wr]"
    and "status_of (process_tts_job (running_then_completed (JObj [])) ''g1'' (JStr ''job-1'') example_store) ''g1''
        = Some (write_status wr)"
    and "write_status wr = ''completed'' \<or> write_status wr = ''failed''"
    by blast
  with st show ?thesis by (auto simp add: example_store_def)
qed




section \<open>The generate endpoint\<close>

text \<open>
  Claim C8. When the stripped text of the request is empty or longer than 25000
  characters, the handler answers 400 and leaves the store as it was: no record is
  created. Otherwise the first write it issues is the insert of a record with the fresh
  id, the stripped text, status \<open>processing\<close> and \<open>error\<close> and \<open>storage_path\<close>
  unset. \<open>create_generation\<close> itself always yields such a record and stores it under
  its id.
\<close>

theorem api_generate_validates_then_creates:
  "(py_strip (request_text request) = [] \<or> length (py_strip (request_text request)) > 25000
      \<longrightarrow> (\<exists>detail. api_generate h request db = (HTTPException 400 detail, None, db)))
   \<and> (py_strip (request_text request) \<noteq> [] \<and> length (py_strip (request_text request)) \<le> 25000
      \<longrightarrow> (\<exists>rec rest. journal (snd (snd (api_generate h request db))) = journal db @ Insert rec # rest
             \<and> gid rec = new_uuid h \<and> text_content rec = py_strip (request_text request)
             \<and> status rec = ''processing'' \<and> error rec = JNull \<and> storage_path rec = None))
   \<and> (\<exists>rec. fst (create_generation uuid nw t ttl descr db) = Some rec
         \<and> table (snd (create_generation uuid nw t ttl descr db)) uuid = Some rec
         \<and> status rec = ''processing'' \<and> error rec = JNull \<and> storage_path rec = None)"
proof (intro conjI impI)
  assume "py_strip (request_text request) = [] \<or> length (py_strip (request_text request)) > 25000"
  then show "\<exists>detail. api_generate h request db = (HTTPException 400 detail, None, db)"
    by (auto simp add: api_generate_def MAX_TEXT_LENGTH_def Let_def)
next
  assume v: "py_strip (request_text request) \<noteq> [] \<and> length (py_strip (request_text request)) \<le> 25000"
  let ?t = "py_strip (request_text request)"
  show "\<exists>rec rest. journal (snd (snd (api_generate h request db))) = journal db @ Insert rec # rest
             \<and> gid rec = new_uuid h \<and> text_content rec = ?t
             \<and> status rec = ''processing'' \<and> error rec = JNull \<and> storage_path rec = None"
  proof (cases "submit_tts_job (run_post h) ?t None")
    case (Inr job)
    with v show ?thesis
      by (simp add: api_generate_def MAX_TEXT_LENGTH_def Let_def create_generation_row
            split: prod.splits)
  next
    case (Inl e)
    with v show ?thesis
      by (simp add: api_generate_def MAX_TEXT_LENGTH_def Let_def create_generation_row failed_journal
            split: prod.splits)
  qed
next
  show "\<exists>rec. fst (create_generation uuid nw t ttl descr db) = Some rec
         \<and> table (snd (create_generation uuid nw t ttl descr db)) uuid = Some rec
         \<and> status rec = ''processing'' \<and> error rec = JNull \<and> storage_path rec = None"
    by (simp add: create_generation_row)
qed

theorem api_generate_validates_then_creates_witness:
  "api_generate example_handler_env \<lparr>request_text = ''  '', request_title = None\<rparr> \<lparr>table = Map.empty, journal = []\<rparr>
     = (HTTPException 400 ''Text is required'', None, \<lparr>table = Map.empty, journal = []\<rparr>)
   \<and> journal (snd (snd (api_generate example_handler_env \<lparr>request_text = '' hello  '', request_title = None\<rparr>
                          \<lparr>table = Map.empty, journal = []\<rparr>)))
     = [Insert \<lparr>gid = ''g2'', title = Some ''hello'', description = Some ''hello'', text_content = ''hello'',
            status = ''processing'', created_at = ''2026-01-01T00:00:00+00:00'', storage_path = None,
            file_url = JNull, error = JNull, completed_at = None\<rparr>]"
  using api_generate_validates_then_creates [of "\<lparr>request_text = ''  '', request_title = None\<rparr>" example_handler_env "\<lparr>table = Map.empty, journal = []\<rparr>"]
        api_generate_validates_then_creates [of "\<lparr>request_text = '' hello  '', request_title = None\<rparr>" example_handler_env "\<lparr>table = Map.empty, journal = []\<rparr>"]
  by (simp add: strip_blank strip_hello api_generate_def MAX_TEXT_LENGTH_def create_generation_row Let_def
        example_handler_env_def json_reply_def submit_tts_job_def and_then_def response_json_def
        dict_get_def)

end
